theory Spec2Isabelle
  imports Main "HOL-Library.Word"
begin

section \<open>Collaborators declared outside the two source files\<close>

text \<open>
  \<^verbatim>\<open>materialized_query_result.cpp\<close> and its header use the dynamic value type, the
  columnar row store, the data chunk and the error state of the base class, all of which
  are declared elsewhere. Each is modelled here by what the two files observe of it.
\<close>

text \<open>
  Modelled from the spec: the logical type tag enumeration (\<^verbatim>\<open>LogicalTypeId\<close>) is declared
  outside the source files. The tags are the ones \<^verbatim>\<open>getContents\<close> names in its switch,
  together with representatives of the tags that it leaves to the default branch.
\<close>

datatype LogicalTypeId =
    INVALID | SQLNULL | BOOLEAN | TINYINT | SMALLINT | INTEGER | BIGINT
  | DATE | TIME | TIMESTAMP | DECIMAL | FLOAT | DOUBLE | VARCHAR | BLOB | INTERVAL
  | UTINYINT | USMALLINT | UINTEGER | UBIGINT | HUGEINT | UUID
  | STRUCT | LIST | MAP | ENUM

text \<open>
  A \<^verbatim>\<open>double\<close> is carried as its 64-bit pattern and never interpreted; \<^verbatim>\<open>int\<close>,
  \<^verbatim>\<open>int64_t\<close> and the unsigned types are words of their width (\<open>sint\<close> reads the signed ones).
\<close>

type_synonym double = "64 word"

text \<open>
  Modelled from the spec: the dynamic value (\<^verbatim>\<open>Value\<close>) is opaque. It reports its logical
  type tag (\<^verbatim>\<open>type().id()\<close>), tests nullness (\<^verbatim>\<open>IsNull()\<close>), narrows to a native
  representation (\<^verbatim>\<open>GetValue<T>()\<close>, one field for each \<open>T\<close> the source files ask for) and
  renders itself as text (\<^verbatim>\<open>ToString()\<close>).
\<close>

record Value =
  type_id :: LogicalTypeId
  IsNull :: bool
  GetValue_bool :: bool
  GetValue_int64_t :: "64 word"
  GetValue_uint64_t :: "64 word"
  GetValue_int :: "32 word"
  GetValue_uint32_t :: "32 word"
  GetValue_double :: double
  GetValue_string :: string
  Value_ToString :: string

type_synonym ColumnDataRow = "Value list"

text \<open>
  Modelled from the spec: the buffered row store (\<^verbatim>\<open>ColumnDataCollection\<close>) holds the column
  types and the rows, stored chunk by chunk; the scan cursor delivers the stored chunks
  one per call, in order.
\<close>

record ColumnDataCollection =
  column_types :: "LogicalTypeId list"
  chunk_data :: "ColumnDataRow list list"

record DataChunk =
  chunk_types :: "LogicalTypeId list"
  chunk_rows :: "ColumnDataRow list"

type_synonym ColumnDataScanState = nat

type_synonym ColumnDataRowCollection = "ColumnDataRow list"

text \<open>
  Modelled from the spec: what the result object consumes from the store, none of it
  defined in the source files: the column types and counts, the rows for iteration
  (\<^verbatim>\<open>Rows()\<close>) and for the random-access row view (\<^verbatim>\<open>GetRows()\<close>), the initialization of a
  batch and of the cursor, and the scan that moves the next stored chunk into the batch
  and leaves the batch empty at the end of the store.
\<close>

definition Types :: "ColumnDataCollection \<Rightarrow> LogicalTypeId list" where
  "Types coll = column_types coll"

definition ColumnCount :: "ColumnDataCollection \<Rightarrow> nat" where
  "ColumnCount coll = length (column_types coll)"

definition Rows :: "ColumnDataCollection \<Rightarrow> ColumnDataRow list" where
  "Rows coll = concat (chunk_data coll)"

definition Count :: "ColumnDataCollection \<Rightarrow> nat" where
  "Count coll = length (Rows coll)"

definition GetRows :: "ColumnDataCollection \<Rightarrow> ColumnDataRowCollection" where
  "GetRows coll = concat (chunk_data coll)"

definition DataChunk_size :: "DataChunk \<Rightarrow> nat" where
  "DataChunk_size chunk = length (chunk_rows chunk)"

definition InitializeScanChunk :: "ColumnDataCollection \<Rightarrow> DataChunk" where
  "InitializeScanChunk coll = \<lparr>chunk_types = Types coll, chunk_rows = []\<rparr>"

definition InitializeScan :: "ColumnDataCollection \<Rightarrow> ColumnDataScanState" where
  "InitializeScan coll = 0"

definition Scan ::
  "ColumnDataCollection \<Rightarrow> ColumnDataScanState \<Rightarrow> DataChunk \<Rightarrow> ColumnDataScanState \<times> DataChunk" where
  "Scan coll state result =
     (if state < length (chunk_data coll)
      then (Suc state, result\<lparr>chunk_rows := chunk_data coll ! state\<rparr>)
      else (state, result\<lparr>chunk_rows := []\<rparr>))"

text \<open>
  Two invariants of a populated store: no stored chunk is empty, and every row has one
  cell for each column.
\<close>

definition chunks_nonempty :: "ColumnDataCollection \<Rightarrow> bool" where
  "chunks_nonempty coll \<longleftrightarrow> [] \<notin> set (chunk_data coll)"

definition rows_aligned :: "ColumnDataCollection \<Rightarrow> bool" where
  "rows_aligned coll \<longleftrightarrow> (\<forall>row \<in> set (Rows coll). length row = ColumnCount coll)"

text \<open>
  The failures of the model. The first two are the exceptions the source file throws,
  with their formatted message. The other two stand for failures raised outside it:
  \<open>NullPointerDereference\<close> for \<^verbatim>\<open>collection->\<close> on an empty \<^verbatim>\<open>unique_ptr\<close> (a data access
  with the store absent), \<open>IndexOutOfRange\<close> for a row or cell index past the end of the
  row view.
\<close>

datatype Exception =
    InvalidInputException string
  | InternalException string
  | NullPointerDereference
  | IndexOutOfRange

text \<open>
  Modelled from the spec: the row view is enumerable as row, then column, then value;
  \<^verbatim>\<open>ColumnDataRow::GetValue\<close> and \<^verbatim>\<open>ColumnDataRowCollection::GetValue\<close> are defined outside
  the source files.
\<close>

definition Row_GetValue :: "ColumnDataRow \<Rightarrow> nat \<Rightarrow> Exception + Value" where
  "Row_GetValue row column_index =
     (if column_index < length row then Inr (row ! column_index) else Inl IndexOutOfRange)"

definition RowCollection_GetValue ::
  "ColumnDataRowCollection \<Rightarrow> nat \<Rightarrow> nat \<Rightarrow> Exception + Value" where
  "RowCollection_GetValue rows column index =
     (if index < length rows then Row_GetValue (rows ! index) column else Inl IndexOutOfRange)"

definition newline :: string where
  "newline = [CHR 0x0A]"

definition tab :: string where
  "tab = [CHR 0x09]"

text \<open>\<^verbatim>\<open>to_string\<close> of a row count: its decimal digits.\<close>

definition digit_char :: "nat \<Rightarrow> char" where
  "digit_char d = char_of (48 + d)"

function to_string :: "nat \<Rightarrow> string" where
  "to_string n =
     (if n < 10 then [digit_char n] else to_string (n div 10) @ [digit_char (n mod 10)])"
  by pat_completeness auto
termination
  by (relation "measure (\<lambda>n. n)") auto

text \<open>
  \<^verbatim>\<open>StringUtil::Replace\<close> at its one call site, where the text searched for is the single
  NUL byte: every occurrence of the character is replaced.
\<close>

definition Replace :: "string \<Rightarrow> char \<Rightarrow> string \<Rightarrow> string" where
  "Replace source from to = concat (map (\<lambda>c. if c = from then to else [c]) source)"

section \<open>The tagged variants of the header\<close>

datatype Base =
    IntData "32 word"
  | UIntData "32 word"
  | BigIntData "64 word"
  | UBigIntData "64 word"
  | DoubleData double
  | StringData string
  | BoolData bool

text \<open>The \<^verbatim>\<open>id\<close> member each constructor of the header sets.\<close>

fun Base_id :: "Base \<Rightarrow> int" where
  "Base_id (IntData v) = 13"
| "Base_id (UIntData v) = 30"
| "Base_id (BigIntData v) = 14"
| "Base_id (UBigIntData v) = 31"
| "Base_id (DoubleData v) = 23"
| "Base_id (StringData v) = 25"
| "Base_id (BoolData v) = 13"

section \<open>The result object\<close>

record MaterializedQueryResult =
  success :: bool
  error :: string
  names :: "string list"
  types :: "LogicalTypeId list"
  collection :: "ColumnDataCollection option"
  row_collection :: "ColumnDataRowCollection option"
  scan_state :: ColumnDataScanState
  scan_initialized :: bool

text \<open>
  Modelled from the spec: \<^verbatim>\<open>HasError()\<close> and \<^verbatim>\<open>GetError()\<close> are accessors of the base class
  over the error state; the error is present iff the result is unsuccessful.
\<close>

definition HasError :: "MaterializedQueryResult \<Rightarrow> bool" where
  "HasError s = (\<not> success s)"

definition GetError :: "MaterializedQueryResult \<Rightarrow> string" where
  "GetError s = error s"

text \<open>
  The two constructors. The statement kind and the execution and client properties are
  passed through to the base class and read by nothing in these files.
\<close>

definition MaterializedQueryResult_collection ::
  "string list \<Rightarrow> ColumnDataCollection \<Rightarrow> MaterializedQueryResult" where
  "MaterializedQueryResult_collection names_p collection_p =
     \<lparr>success = True, error = [], names = names_p, types = Types collection_p,
      collection = Some collection_p, row_collection = None,
      scan_state = 0, scan_initialized = False\<rparr>"

definition MaterializedQueryResult_error :: "string \<Rightarrow> MaterializedQueryResult" where
  "MaterializedQueryResult_error err =
     \<lparr>success = False, error = err, names = [], types = [],
      collection = None, row_collection = None,
      scan_state = 0, scan_initialized = False\<rparr>"

definition Collection :: "MaterializedQueryResult \<Rightarrow> Exception + ColumnDataCollection" where
  "Collection s =
     (if HasError s then
        Inl (InvalidInputException
              (''Attempting to get collection from an unsuccessful query result'' @ newline
               @ '': Error '' @ GetError s))
      else case collection s of
             None \<Rightarrow> Inl (InternalException ''Missing collection from materialized query result'')
           | Some coll \<Rightarrow> Inr coll)"

definition TakeCollection ::
  "MaterializedQueryResult \<Rightarrow> (Exception + ColumnDataCollection) \<times> MaterializedQueryResult" where
  "TakeCollection s =
     (if HasError s then
        (Inl (InvalidInputException
               (''Attempting to get collection from an unsuccessful query result'' @ newline
                @ '': Error '' @ GetError s)), s)
      else case collection s of
             None \<Rightarrow> (Inl (InternalException ''Missing collection from materialized query result''), s)
           | Some coll \<Rightarrow> (Inr coll, s\<lparr>collection := None\<rparr>))"

definition GetValue ::
  "nat \<Rightarrow> nat \<Rightarrow> MaterializedQueryResult \<Rightarrow> (Exception + Value) \<times> MaterializedQueryResult" where
  "GetValue column index s =
     (case row_collection s of
        None \<Rightarrow>
          (case collection s of
             None \<Rightarrow> (Inl NullPointerDereference, s)
           | Some coll \<Rightarrow>
               (let rows = GetRows coll
                in (RowCollection_GetValue rows column index, s\<lparr>row_collection := Some rows\<rparr>)))
      | Some rows \<Rightarrow> (RowCollection_GetValue rows column index, s))"

text \<open>
  The typed accessor of the header, \<^verbatim>\<open>(T)value.GetValue<int64_t>()\<close>. The conversion
  \<^verbatim>\<open>(T)\<close> of the language is the parameter \<open>cast\<close>; for an integer type \<open>T\<close> it is
  \<open>integer_cast\<close>, which keeps the value modulo the width of \<open>T\<close>.
\<close>

definition GetValue_T ::
  "(64 word \<Rightarrow> 'a) \<Rightarrow> nat \<Rightarrow> nat \<Rightarrow> MaterializedQueryResult
     \<Rightarrow> (Exception + 'a) \<times> MaterializedQueryResult" where
  "GetValue_T cast column index s =
     (case GetValue column index s of
        (Inl e, s') \<Rightarrow> (Inl e, s')
      | (Inr v, s') \<Rightarrow> (Inr (cast (GetValue_int64_t v)), s'))"

definition integer_cast :: "64 word \<Rightarrow> 'a::len word" where
  "integer_cast w = word_of_int (sint w)"

definition RowCount :: "MaterializedQueryResult \<Rightarrow> nat" where
  "RowCount s = (case collection s of Some coll \<Rightarrow> Count coll | None \<Rightarrow> 0)"

definition FetchRaw ::
  "MaterializedQueryResult \<Rightarrow> (Exception + DataChunk option) \<times> MaterializedQueryResult" where
  "FetchRaw s =
     (if HasError s then
        (Inl (InvalidInputException
               (''Attempting to fetch from an unsuccessful query result'' @ newline
                @ ''Error: '' @ GetError s)), s)
      else case collection s of
             None \<Rightarrow> (Inl NullPointerDereference, s)
           | Some coll \<Rightarrow>
               (let result = InitializeScanChunk coll;
                    s1 = (if \<not> scan_initialized s
                          then s\<lparr>scan_state := InitializeScan coll, scan_initialized := True\<rparr>
                          else s);
                    (state', result') = Scan coll (scan_state s1) result;
                    s2 = s1\<lparr>scan_state := state'\<rparr>
                in if DataChunk_size result' = 0 then (Inr None, s2)
                   else (Inr (Some result'), s2)))"

definition Fetch ::
  "MaterializedQueryResult \<Rightarrow> (Exception + DataChunk option) \<times> MaterializedQueryResult" where
  "Fetch s = FetchRaw s"

subsection \<open>Textual rendering\<close>

fun ToString_columns :: "ColumnDataRow \<Rightarrow> nat list \<Rightarrow> Exception + string" where
  "ToString_columns row [] = Inr []"
| "ToString_columns row (col_idx # rest) =
     (case Row_GetValue row col_idx of
        Inl e \<Rightarrow> Inl e
      | Inr val \<Rightarrow>
          (case ToString_columns row rest of
             Inl e \<Rightarrow> Inl e
           | Inr cells \<Rightarrow>
               Inr ((if col_idx > 0 then tab else [])
                    @ (if IsNull val then ''NULL''
                       else Replace (Value_ToString val) (CHR 0x00) [CHR 0x5C, CHR ''0''])
                    @ cells)))"

fun ToString_rows :: "ColumnDataCollection \<Rightarrow> ColumnDataRow list \<Rightarrow> Exception + string" where
  "ToString_rows coll [] = Inr []"
| "ToString_rows coll (row # rest) =
     (case ToString_columns row [0..<ColumnCount coll] of
        Inl e \<Rightarrow> Inl e
      | Inr line \<Rightarrow>
          (case ToString_rows coll rest of
             Inl e \<Rightarrow> Inl e
           | Inr lines \<Rightarrow> Inr (line @ newline @ lines)))"

text \<open>
  \<^verbatim>\<open>HeaderToString()\<close> belongs to the base class and is a parameter of the model.
\<close>

definition ToString ::
  "(MaterializedQueryResult \<Rightarrow> string) \<Rightarrow> MaterializedQueryResult \<Rightarrow> Exception + string" where
  "ToString HeaderToString s =
     (if success s then
        (case collection s of
           None \<Rightarrow> Inl NullPointerDereference
         | Some c \<Rightarrow>
             (let result = HeaderToString s @ ''[ Rows: '' @ to_string (Count c) @ '']'' @ newline
              in case Collection s of
                   Inl e \<Rightarrow> Inl e
                 | Inr coll \<Rightarrow>
                     (case ToString_rows coll (Rows coll) of
                        Inl e \<Rightarrow> Inl e
                      | Inr body \<Rightarrow> Inr (result @ body @ newline))))
      else Inr (GetError s @ newline))"

text \<open>The box renderer is external and a parameter of the model.\<close>

definition ToBox ::
  "(string list \<Rightarrow> ColumnDataCollection \<Rightarrow> string) \<Rightarrow> MaterializedQueryResult
     \<Rightarrow> Exception + string" where
  "ToBox renderer s =
     (if \<not> success s then Inr (GetError s @ newline)
      else if collection s = None then
        Inr ''Internal error - result was successful but there was no collection''
      else case Collection s of
             Inl e \<Rightarrow> Inl e
           | Inr coll \<Rightarrow> Inr (renderer (names s) coll))"

subsection \<open>Typed extraction\<close>

text \<open>The body of the column loop of \<^verbatim>\<open>getContents\<close>: the slot pushed for one cell.\<close>

definition getContents_cell :: "Value \<Rightarrow> Base option" where
  "getContents_cell val =
     (if \<not> IsNull val then
        (case type_id val of
           BOOLEAN \<Rightarrow> Some (BoolData (GetValue_bool val))
         | BIGINT \<Rightarrow> Some (BigIntData (GetValue_int64_t val))
         | UBIGINT \<Rightarrow> Some (UBigIntData (GetValue_uint64_t val))
         | INTEGER \<Rightarrow> Some (IntData (GetValue_int val))
         | SMALLINT \<Rightarrow> Some (IntData (GetValue_int val))
         | TINYINT \<Rightarrow> Some (IntData (GetValue_int val))
         | USMALLINT \<Rightarrow> Some (IntData (GetValue_int val))
         | UTINYINT \<Rightarrow> Some (IntData (GetValue_int val))
         | UINTEGER \<Rightarrow> Some (UIntData (GetValue_uint32_t val))
         | DOUBLE \<Rightarrow> Some (DoubleData (GetValue_double val))
         | FLOAT \<Rightarrow> Some (DoubleData (GetValue_double val))
         | DECIMAL \<Rightarrow> Some (DoubleData (GetValue_double val))
         | VARCHAR \<Rightarrow> Some (StringData (GetValue_string val))
         | _ \<Rightarrow> Some (StringData (Value_ToString val)))
      else None)"

fun getContents_columns :: "ColumnDataRow \<Rightarrow> nat list \<Rightarrow> Exception + Base option list" where
  "getContents_columns row [] = Inr []"
| "getContents_columns row (col_idx # rest) =
     (case Row_GetValue row col_idx of
        Inl e \<Rightarrow> Inl e
      | Inr val \<Rightarrow>
          (case getContents_columns row rest of
             Inl e \<Rightarrow> Inl e
           | Inr dataVector \<Rightarrow> Inr (getContents_cell val # dataVector)))"

fun getContents_rows ::
  "ColumnDataCollection \<Rightarrow> ColumnDataRow list \<Rightarrow> Exception + Base option list list" where
  "getContents_rows coll [] = Inr []"
| "getContents_rows coll (row # rest) =
     (case getContents_columns row [0..<ColumnCount coll] of
        Inl e \<Rightarrow> Inl e
      | Inr dataVector \<Rightarrow>
          (case getContents_rows coll rest of
             Inl e \<Rightarrow> Inl e
           | Inr overallResult \<Rightarrow> Inr (dataVector # overallResult)))"

definition getContents :: "MaterializedQueryResult \<Rightarrow> Exception + Base option list list" where
  "getContents s =
     (if \<not> success s then Inr []
      else case Collection s of
             Inl e \<Rightarrow> Inl e
           | Inr coll \<Rightarrow> getContents_rows coll (Rows coll))"

text \<open>
  The mapping table of the specification, read from top to bottom with the first match
  winning: the slot that typed extraction has to produce for one cell.
\<close>

definition spec_variant :: "Value \<Rightarrow> Base option" where
  "spec_variant v =
     (if IsNull v then None
      else if type_id v = BOOLEAN then Some (BoolData (GetValue_bool v))
      else if type_id v = BIGINT then Some (BigIntData (GetValue_int64_t v))
      else if type_id v = UBIGINT then Some (UBigIntData (GetValue_uint64_t v))
      else if type_id v = INTEGER \<or> type_id v = SMALLINT \<or> type_id v = TINYINT
              \<or> type_id v = USMALLINT \<or> type_id v = UTINYINT
        then Some (IntData (GetValue_int v))
      else if type_id v = UINTEGER then Some (UIntData (GetValue_uint32_t v))
      else if type_id v = FLOAT \<or> type_id v = DOUBLE \<or> type_id v = DECIMAL
        then Some (DoubleData (GetValue_double v))
      else if type_id v = VARCHAR then Some (StringData (GetValue_string v))
      else Some (StringData (Value_ToString v)))"

subsection \<open>Repeated fetching\<close>

text \<open>
  \<open>FetchRaw_times n\<close> is a consumer that calls \<^verbatim>\<open>FetchRaw()\<close> \<open>n\<close> times in a row and keeps
  every outcome; \<open>delivered_rows\<close> lays the rows of the batches it received end to end.
\<close>

fun FetchRaw_times ::
  "nat \<Rightarrow> MaterializedQueryResult
     \<Rightarrow> (Exception + DataChunk option) list \<times> MaterializedQueryResult" where
  "FetchRaw_times 0 s = ([], s)"
| "FetchRaw_times (Suc n) s =
     (case FetchRaw s of
        (r, s') \<Rightarrow> (case FetchRaw_times n s' of (rs, s'') \<Rightarrow> (r # rs, s'')))"

fun delivered_rows :: "(Exception + DataChunk option) list \<Rightarrow> ColumnDataRow list" where
  "delivered_rows [] = []"
| "delivered_rows (Inr (Some chunk) # rs) = chunk_rows chunk @ delivered_rows rs"
| "delivered_rows (r # rs) = delivered_rows rs"

section \<open>Sample data\<close>

definition sample_true :: Value where
  "sample_true =
     \<lparr>type_id = BOOLEAN, IsNull = False, GetValue_bool = True, GetValue_int64_t = 1,
      GetValue_uint64_t = 1, GetValue_int = 1, GetValue_uint32_t = 1,
      GetValue_double = 0x3FF0000000000000, GetValue_string = ''true'',
      Value_ToString = ''true''\<rparr>"

definition sample_abc :: Value where
  "sample_abc =
     \<lparr>type_id = VARCHAR, IsNull = False, GetValue_bool = False, GetValue_int64_t = 0,
      GetValue_uint64_t = 0, GetValue_int = 0, GetValue_uint32_t = 0,
      GetValue_double = 0, GetValue_string = ''abc'', Value_ToString = ''abc''\<rparr>"

definition sample_null :: Value where
  "sample_null =
     \<lparr>type_id = VARCHAR, IsNull = True, GetValue_bool = False, GetValue_int64_t = 0,
      GetValue_uint64_t = 0, GetValue_int = 0, GetValue_uint32_t = 0,
      GetValue_double = 0, GetValue_string = ''NULL'', Value_ToString = ''NULL''\<rparr>"

definition sample_minus_one :: Value where
  "sample_minus_one =
     \<lparr>type_id = BIGINT, IsNull = False, GetValue_bool = True, GetValue_int64_t = - 1,
      GetValue_uint64_t = - 1, GetValue_int = - 1, GetValue_uint32_t = - 1,
      GetValue_double = 0xBFF0000000000000, GetValue_string = ''-1'',
      Value_ToString = ''-1''\<rparr>"

text \<open>
  Three rows of a boolean, a text and a 64-bit integer column, stored as a chunk of two
  rows and a chunk of one.
\<close>

definition sample_collection :: ColumnDataCollection where
  "sample_collection =
     \<lparr>column_types = [BOOLEAN, VARCHAR, BIGINT],
      chunk_data = [[[sample_true, sample_abc, sample_minus_one],
                     [sample_true, sample_null, sample_minus_one]],
                    [[sample_true, sample_abc, sample_minus_one]]]\<rparr>"

definition sample_result :: MaterializedQueryResult where
  "sample_result =
     MaterializedQueryResult_collection [''flag'', ''label'', ''delta''] sample_collection"

definition sample_error_result :: MaterializedQueryResult where
  "sample_error_result = MaterializedQueryResult_error ''division by zero''"

section \<open>Properties\<close>

lemmas sample_defs =
  sample_result_def sample_error_result_def sample_collection_def
  MaterializedQueryResult_collection_def MaterializedQueryResult_error_def

subsection \<open>Typed extraction\<close>

lemma getContents_cell_spec: "getContents_cell v = spec_variant v"
  by (cases "type_id v") (simp_all add: getContents_cell_def spec_variant_def)

lemma getContents_columns_in_range:
  "\<forall>c \<in> set cols. c < length row \<Longrightarrow>
     getContents_columns row cols = Inr (map (\<lambda>c. getContents_cell (row ! c)) cols)"
  by (induction cols) (simp_all add: Row_GetValue_def)

lemma getContents_columns_aligned:
  "length row = n \<Longrightarrow> getContents_columns row [0..<n] = Inr (map getContents_cell row)"
proof -
  assume len: "length row = n"
  then have "getContents_columns row [0..<n] = Inr (map (\<lambda>c. getContents_cell (row ! c)) [0..<n])"
    by (intro getContents_columns_in_range) simp
  also have "map (\<lambda>c. getContents_cell (row ! c)) [0..<n] = map getContents_cell (map ((!) row) [0..<n])"
    by simp
  also have "map ((!) row) [0..<n] = row"
    unfolding len [symmetric] by (rule map_nth)
  finally show ?thesis .
qed

lemma getContents_rows_aligned:
  "\<forall>row \<in> set rows. length row = ColumnCount coll \<Longrightarrow>
     getContents_rows coll rows = Inr (map (map getContents_cell) rows)"
  by (induction rows) (simp_all add: getContents_columns_aligned)

text \<open>
  C3: on a successful result that still holds its store, with \<open>N\<close> rows of \<open>C\<close> cells each,
  \<^verbatim>\<open>getContents()\<close> returns a matrix of exactly \<open>N\<close> rows with exactly \<open>C\<close> slots each, and
  the slot at row \<open>i\<close>, column \<open>c\<close> is what the mapping table of the specification gives
  for the store's cell at \<open>(i, c)\<close>: absent for a null cell, otherwise Bool, BigInt,
  UBigInt, Int, UInt, Double or String by the first matching logical type, with the
  textual rendering as the fallback.
\<close>

theorem getContents_success:
  assumes "success s" and "collection s = Some coll" and "rows_aligned coll"
  shows "\<exists>m. getContents s = Inr m \<and> length m = Count coll \<and>
           (\<forall>r \<in> set m. length r = ColumnCount coll) \<and>
           (\<forall>i < Count coll. \<forall>c < ColumnCount coll.
               m ! i ! c = spec_variant (Rows coll ! i ! c))"
proof -
  let ?m = "map (map getContents_cell) (Rows coll)"
  have al: "\<forall>row \<in> set (Rows coll). length row = ColumnCount coll"
    using assms(3) by (simp add: rows_aligned_def)
  have "getContents s = Inr ?m"
    using assms(1,2) getContents_rows_aligned [OF al]
    by (simp add: getContents_def Collection_def HasError_def)
  moreover have "length ?m = Count coll"
    by (simp add: Count_def)
  moreover have "\<forall>r \<in> set ?m. length r = ColumnCount coll"
    using al by auto
  moreover have "\<forall>i < Count coll. \<forall>c < ColumnCount coll.
                   ?m ! i ! c = spec_variant (Rows coll ! i ! c)"
  proof (intro allI impI)
    fix i c
    assume i: "i < Count coll" and c: "c < ColumnCount coll"
    from i have "Rows coll ! i \<in> set (Rows coll)"
      by (simp add: Count_def)
    with al c have "c < length (Rows coll ! i)"
      by simp
    with i show "?m ! i ! c = spec_variant (Rows coll ! i ! c)"
      by (simp add: Count_def getContents_cell_spec)
  qed
  ultimately show ?thesis
    by blast
qed

theorem getContents_success_witness:
  "success sample_result \<and> collection sample_result = Some sample_collection \<and>
   rows_aligned sample_collection \<and>
   getContents sample_result =
     Inr [[Some (BoolData True), Some (StringData ''abc''), Some (BigIntData (- 1))],
          [Some (BoolData True), None, Some (BigIntData (- 1))],
          [Some (BoolData True), Some (StringData ''abc''), Some (BigIntData (- 1))]] \<and>
   (\<exists>m. getContents sample_result = Inr m \<and> length m = Count sample_collection \<and>
        (\<forall>r \<in> set m. length r = ColumnCount sample_collection) \<and>
        (\<forall>i < Count sample_collection. \<forall>c < ColumnCount sample_collection.
            m ! i ! c = spec_variant (Rows sample_collection ! i ! c)))"
proof -
  have h: "success sample_result" "collection sample_result = Some sample_collection"
    "rows_aligned sample_collection"
    by (simp_all add: sample_defs rows_aligned_def Rows_def ColumnCount_def)
  have "getContents sample_result =
     Inr [[Some (BoolData True), Some (StringData ''abc''), Some (BigIntData (- 1))],
          [Some (BoolData True), None, Some (BigIntData (- 1))],
          [Some (BoolData True), Some (StringData ''abc''), Some (BigIntData (- 1))]]"
    by (simp add: sample_defs getContents_def Collection_def HasError_def Rows_def
        ColumnCount_def Row_GetValue_def getContents_cell_def upt_rec
        sample_true_def sample_abc_def sample_null_def sample_minus_one_def)
  with h getContents_success [OF h] show ?thesis
    by simp
qed

text \<open>
  C5: on every result for which \<^verbatim>\<open>HasError()\<close> is true, \<^verbatim>\<open>getContents()\<close> returns the empty
  matrix and raises nothing.
\<close>

theorem getContents_error_empty: "HasError s \<Longrightarrow> getContents s = Inr []"
  by (simp add: getContents_def HasError_def)

theorem getContents_error_empty_witness:
  "HasError sample_error_result \<and> getContents sample_error_result = Inr []"
  using getContents_error_empty [of sample_error_result]
  by (simp add: sample_defs HasError_def)

subsection \<open>Textual rendering\<close>

text \<open>
  C8: on every result for which \<^verbatim>\<open>HasError()\<close> is true, \<^verbatim>\<open>ToString()\<close> returns exactly the
  error text followed by one newline, and the row store plays no part in it: the outcome
  is the same whatever store and row view the object holds.
\<close>

theorem ToString_error:
  "HasError s \<Longrightarrow>
     ToString HeaderToString s = Inr (GetError s @ [CHR 0x0A]) \<and>
     ToString HeaderToString (s\<lparr>collection := c, row_collection := r\<rparr>)
       = ToString HeaderToString s"
  by (simp add: ToString_def HasError_def GetError_def newline_def)

theorem ToString_error_witness:
  "HasError sample_error_result \<and>
   ToString (\<lambda>s. []) sample_error_result = Inr (''division by zero'' @ [CHR 0x0A]) \<and>
   ToString (\<lambda>s. [])
     (sample_error_result\<lparr>collection := Some sample_collection, row_collection := None\<rparr>)
     = ToString (\<lambda>s. []) sample_error_result"
  using ToString_error [where s = sample_error_result and HeaderToString = "\<lambda>s. []"
      and c = "Some sample_collection" and r = None]
  by (simp add: sample_defs HasError_def GetError_def)

subsection \<open>Sequential fetch\<close>

text \<open>
  C7: \<^verbatim>\<open>Fetch()\<close> returns exactly what \<^verbatim>\<open>FetchRaw()\<close> returns, and on every result for which
  \<^verbatim>\<open>HasError()\<close> is true \<^verbatim>\<open>FetchRaw()\<close> fails with an invalid-input error whose message ends
  with the underlying error text, leaving the object as it was.
\<close>

theorem Fetch_alias_and_error:
  "Fetch s = FetchRaw s \<and>
   (HasError s \<longrightarrow>
      FetchRaw s =
        (Inl (InvalidInputException
               (''Attempting to fetch from an unsuccessful query result'' @ [CHR 0x0A]
                @ ''Error: '' @ GetError s)), s))"
  by (simp add: Fetch_def FetchRaw_def newline_def)

theorem Fetch_alias_and_error_witness:
  "HasError sample_error_result \<and>
   Fetch sample_error_result = FetchRaw sample_error_result \<and>
   FetchRaw sample_error_result =
     (Inl (InvalidInputException
            (''Attempting to fetch from an unsuccessful query result'' @ [CHR 0x0A]
             @ ''Error: division by zero'')), sample_error_result)"
  using Fetch_alias_and_error [of sample_error_result]
  by (simp add: sample_defs HasError_def GetError_def)

subsection \<open>Row count\<close>

text \<open>
  C10: \<^verbatim>\<open>RowCount()\<close> is total. It is the store's row count while the store is present and
  0 when it is absent, which is the case for an error result and after a successful
  \<^verbatim>\<open>TakeCollection()\<close>.
\<close>

theorem RowCount_total:
  "(collection s = Some coll \<longrightarrow> RowCount s = Count coll) \<and>
   (collection s = None \<longrightarrow> RowCount s = 0) \<and>
   RowCount (MaterializedQueryResult_error err) = 0 \<and>
   (fst (TakeCollection s) = Inr coll \<longrightarrow> RowCount (snd (TakeCollection s)) = 0)"
  by (auto simp add: RowCount_def MaterializedQueryResult_error_def TakeCollection_def
      split: option.splits if_splits)

theorem RowCount_total_witness:
  "collection sample_result = Some sample_collection \<and>
   RowCount sample_result = 3 \<and>
   collection sample_error_result = None \<and>
   RowCount sample_error_result = 0 \<and>
   fst (TakeCollection sample_result) = Inr sample_collection \<and>
   RowCount (snd (TakeCollection sample_result)) = 0"
  using RowCount_total [of sample_result sample_collection "''division by zero''"]
    RowCount_total [of sample_error_result sample_collection "''division by zero''"]
  by (simp add: sample_defs TakeCollection_def HasError_def Count_def Rows_def)

subsection \<open>Random access\<close>

text \<open>
  C1: the claim is that \<^verbatim>\<open>GetValue(column, index)\<close> on an error result fails with an
  invalid-input error raised by \<^verbatim>\<open>Collection()\<close>. On the error result for
  \<open>division by zero\<close> the code never calls \<^verbatim>\<open>Collection()\<close>: it finds no row view,
  dereferences the absent store to build one and fails there, while \<^verbatim>\<open>Collection()\<close> on
  the same object raises the invalid-input error.
\<close>

theorem GetValue_error_result:
  "HasError (MaterializedQueryResult_error ''division by zero'') \<and>
   GetValue 0 0 (MaterializedQueryResult_error ''division by zero'')
     = (Inl NullPointerDereference, MaterializedQueryResult_error ''division by zero'') \<and>
   Collection (MaterializedQueryResult_error ''division by zero'')
     = Inl (InvalidInputException
             (''Attempting to get collection from an unsuccessful query result'' @ [CHR 0x0A]
              @ '': Error division by zero''))"
  by (simp add: GetValue_def Collection_def MaterializedQueryResult_error_def HasError_def
      GetError_def newline_def)

text \<open>
  C9: for every column, row index and target type, the typed accessor returns the value
  of \<^verbatim>\<open>GetValue(column, index)\<close> narrowed to a signed 64-bit integer and then cast to the
  target type; it fails exactly when \<^verbatim>\<open>GetValue\<close> fails, with the same error, and leaves
  the object in the state \<^verbatim>\<open>GetValue\<close> leaves it in.
\<close>

theorem GetValue_T_via_int64:
  "fst (GetValue_T cast column index s)
     = map_sum id (\<lambda>v. cast (GetValue_int64_t v)) (fst (GetValue column index s)) \<and>
   snd (GetValue_T cast column index s) = snd (GetValue column index s)"
  by (simp add: GetValue_T_def split: prod.splits sum.splits)

theorem GetValue_T_via_int64_witness:
  "fst (GetValue 2 0 sample_result) = Inr sample_minus_one \<and>
   GetValue_int64_t sample_minus_one = - 1 \<and>
   fst (GetValue_T (integer_cast :: 64 word \<Rightarrow> 8 word) 2 0 sample_result) = Inr 255 \<and>
   fst (GetValue_T (integer_cast :: 64 word \<Rightarrow> 32 word) 2 0 sample_result) = Inr (- 1)"
proof -
  have v: "fst (GetValue 2 0 sample_result) = Inr sample_minus_one"
    by (simp add: sample_defs GetValue_def GetRows_def RowCollection_GetValue_def
        Row_GetValue_def)
  have n: "GetValue_int64_t sample_minus_one = - 1"
    by (simp add: sample_minus_one_def)
  show ?thesis
    using v n
      GetValue_T_via_int64 [of "integer_cast :: 64 word \<Rightarrow> 8 word" 2 0 sample_result]
      GetValue_T_via_int64 [of "integer_cast :: 64 word \<Rightarrow> 32 word" 2 0 sample_result]
    by (simp add: integer_cast_def)
qed

subsection \<open>The full streaming pass\<close>

lemma FetchRaw_started:
  assumes "success s" and "collection s = Some coll" and "scan_initialized s"
    and "chunks_nonempty coll"
  shows "FetchRaw s =
    (if scan_state s < length (chunk_data coll)
     then (Inr (Some \<lparr>chunk_types = Types coll, chunk_rows = chunk_data coll ! scan_state s\<rparr>),
           s\<lparr>scan_state := Suc (scan_state s)\<rparr>)
     else (Inr None, s))"
proof (cases "scan_state s < length (chunk_data coll)")
  case True
  then have "chunk_data coll ! scan_state s \<noteq> []"
    using assms(4) by (metis chunks_nonempty_def nth_mem)
  with True assms(1-3) show ?thesis
    by (simp add: FetchRaw_def HasError_def InitializeScanChunk_def Scan_def DataChunk_size_def)
next
  case False
  with assms(1-3) show ?thesis
    by (simp add: FetchRaw_def HasError_def InitializeScanChunk_def Scan_def DataChunk_size_def)
qed

lemma FetchRaw_unstarted:
  assumes "success s" and "collection s = Some coll" and "\<not> scan_initialized s"
  shows "FetchRaw s = FetchRaw (s\<lparr>scan_state := 0, scan_initialized := True\<rparr>)"
  using assms
  by (simp add: FetchRaw_def HasError_def InitializeScan_def)

lemma FetchRaw_times_unstarted:
  assumes "success s" and "collection s = Some coll" and "\<not> scan_initialized s"
  shows "FetchRaw_times (Suc n) s
           = FetchRaw_times (Suc n) (s\<lparr>scan_state := 0, scan_initialized := True\<rparr>)"
  using FetchRaw_unstarted [OF assms] by simp

lemma FetchRaw_times_append:
  "FetchRaw_times (a + b) s =
     (fst (FetchRaw_times a s) @ fst (FetchRaw_times b (snd (FetchRaw_times a s))),
      snd (FetchRaw_times b (snd (FetchRaw_times a s))))"
  by (induction a arbitrary: s) (simp_all split: prod.splits)

lemma FetchRaw_times_exhausted:
  assumes "success s" and "collection s = Some coll" and "scan_initialized s"
    and "chunks_nonempty coll" and "length (chunk_data coll) \<le> scan_state s"
  shows "FetchRaw_times n s = (replicate n (Inr None), s)"
proof (induction n)
  case 0
  show ?case by simp
next
  case (Suc n)
  have "FetchRaw s = (Inr None, s)"
    using FetchRaw_started [OF assms(1-4)] assms(5) by simp
  with Suc show ?case by simp
qed

lemma FetchRaw_times_delivers:
  assumes "chunks_nonempty coll"
  shows "success s \<Longrightarrow> collection s = Some coll \<Longrightarrow> scan_initialized s \<Longrightarrow>
         scan_state s + j = length (chunk_data coll) \<Longrightarrow>
         FetchRaw_times j s =
           (map (\<lambda>rows. Inr (Some \<lparr>chunk_types = Types coll, chunk_rows = rows\<rparr>))
              (drop (scan_state s) (chunk_data coll)),
            s\<lparr>scan_state := length (chunk_data coll)\<rparr>)"
proof (induction j arbitrary: s)
  case 0
  then have "s\<lparr>scan_state := length (chunk_data coll)\<rparr> = s"
    by (cases s) simp
  with 0 show ?case by simp
next
  case (Suc j)
  let ?k = "scan_state s"
  let ?s' = "s\<lparr>scan_state := Suc ?k\<rparr>"
  from Suc.prems have lt: "?k < length (chunk_data coll)"
    by simp
  have step: "FetchRaw s =
      (Inr (Some \<lparr>chunk_types = Types coll, chunk_rows = chunk_data coll ! ?k\<rparr>), ?s')"
    using FetchRaw_started [OF Suc.prems(1-3) assms] lt by simp
  have rest: "FetchRaw_times j ?s' =
      (map (\<lambda>rows. Inr (Some \<lparr>chunk_types = Types coll, chunk_rows = rows\<rparr>))
         (drop (Suc ?k) (chunk_data coll)),
       ?s'\<lparr>scan_state := length (chunk_data coll)\<rparr>)"
    using Suc.IH [of ?s'] Suc.prems by simp
  have "drop ?k (chunk_data coll) = chunk_data coll ! ?k # drop (Suc ?k) (chunk_data coll)"
    using lt by (simp add: Cons_nth_drop_Suc)
  with step rest show ?case by simp
qed

lemma FetchRaw_times_full_pass:
  assumes "success s" and "collection s = Some coll" and "\<not> scan_initialized s"
    and "chunks_nonempty coll"
  shows "FetchRaw_times (length (chunk_data coll) + Suc k) s =
           (map (\<lambda>rows. Inr (Some \<lparr>chunk_types = Types coll, chunk_rows = rows\<rparr>))
              (chunk_data coll) @ replicate (Suc k) (Inr None),
            s\<lparr>scan_state := length (chunk_data coll), scan_initialized := True\<rparr>)"
proof -
  let ?m = "length (chunk_data coll)"
  let ?s0 = "s\<lparr>scan_state := 0, scan_initialized := True\<rparr>"
  let ?sm = "s\<lparr>scan_state := ?m, scan_initialized := True\<rparr>"
  have "FetchRaw_times (?m + Suc k) s = FetchRaw_times (?m + Suc k) ?s0"
    using FetchRaw_times_unstarted [OF assms(1-3), of "?m + k"] by simp
  moreover have "FetchRaw_times ?m ?s0 =
      (map (\<lambda>rows. Inr (Some \<lparr>chunk_types = Types coll, chunk_rows = rows\<rparr>)) (chunk_data coll), ?sm)"
    using FetchRaw_times_delivers [OF assms(4), of ?s0 ?m] assms(1,2) by simp
  moreover have "FetchRaw_times (Suc k) ?sm = (replicate (Suc k) (Inr None), ?sm)"
    using FetchRaw_times_exhausted [of ?sm coll "Suc k"] assms(1,2,4) by simp
  ultimately show ?thesis
    by (simp only: FetchRaw_times_append fst_conv snd_conv)
qed

lemma delivered_rows_batches:
  "delivered_rows (map (\<lambda>b. Inr (Some b)) batches @ replicate k (Inr None))
     = concat (map chunk_rows batches)"
proof (induction batches)
  case Nil
  show ?case by (induction k) simp_all
next
  case (Cons b batches)
  then show ?case by simp
qed

text \<open>
  C4: on a successful result holding a store of \<open>N\<close> rows, on which no fetch has been made
  yet, the successive \<^verbatim>\<open>FetchRaw()\<close> calls return a sequence of batches whose sizes add up
  to \<open>N\<close> and whose rows, laid end to end, are the rows of the store in their order; every
  call after the last batch returns no value without an error, and the object then keeps
  the scan started with its cursor at the end: nothing initializes the cursor again.
\<close>

theorem FetchRaw_full_pass:
  assumes "success s" and "collection s = Some coll" and "\<not> scan_initialized s"
    and "chunks_nonempty coll"
  shows "\<exists>batches.
           sum_list (map DataChunk_size batches) = Count coll \<and>
           concat (map chunk_rows batches) = Rows coll \<and>
           (\<forall>k. fst (FetchRaw_times (length batches + Suc k) s)
                  = map (\<lambda>b. Inr (Some b)) batches @ replicate (Suc k) (Inr None) \<and>
                snd (FetchRaw_times (length batches + Suc k) s)
                  = s\<lparr>scan_state := length batches, scan_initialized := True\<rparr>)"
proof -
  let ?batches = "map (\<lambda>rows. \<lparr>chunk_types = Types coll, chunk_rows = rows\<rparr>) (chunk_data coll)"
  have rows: "map chunk_rows ?batches = chunk_data coll"
    by (simp add: comp_def)
  have "sum_list (map DataChunk_size ?batches) = Count coll"
    by (simp add: Count_def Rows_def length_concat comp_def DataChunk_size_def)
  moreover have "concat (map chunk_rows ?batches) = Rows coll"
    by (simp only: rows Rows_def)
  moreover have "\<forall>k. fst (FetchRaw_times (length ?batches + Suc k) s)
                  = map (\<lambda>b. Inr (Some b)) ?batches @ replicate (Suc k) (Inr None) \<and>
                snd (FetchRaw_times (length ?batches + Suc k) s)
                  = s\<lparr>scan_state := length ?batches, scan_initialized := True\<rparr>"
    using FetchRaw_times_full_pass [OF assms] by (simp add: comp_def)
  ultimately show ?thesis
    by blast
qed


theorem FetchRaw_full_pass_witness:
  "success sample_result \<and> collection sample_result = Some sample_collection \<and>
   \<not> scan_initialized sample_result \<and> chunks_nonempty sample_collection \<and>
   fst (FetchRaw_times 4 sample_result) =
     [Inr (Some \<lparr>chunk_types = [BOOLEAN, VARCHAR, BIGINT],
                 chunk_rows = [[sample_true, sample_abc, sample_minus_one],
                               [sample_true, sample_null, sample_minus_one]]\<rparr>),
      Inr (Some \<lparr>chunk_types = [BOOLEAN, VARCHAR, BIGINT],
                 chunk_rows = [[sample_true, sample_abc, sample_minus_one]]\<rparr>),
      Inr None, Inr None] \<and>
   (\<exists>batches.
      sum_list (map DataChunk_size batches) = Count sample_collection \<and>
      concat (map chunk_rows batches) = Rows sample_collection \<and>
      (\<forall>k. fst (FetchRaw_times (length batches + Suc k) sample_result)
             = map (\<lambda>b. Inr (Some b)) batches @ replicate (Suc k) (Inr None) \<and>
           snd (FetchRaw_times (length batches + Suc k) sample_result)
             = sample_result\<lparr>scan_state := length batches, scan_initialized := True\<rparr>))"
proof -
  have h: "success sample_result" "collection sample_result = Some sample_collection"
    "\<not> scan_initialized sample_result" "chunks_nonempty sample_collection"
    by (simp_all add: sample_defs chunks_nonempty_def)
  have "FetchRaw_times 4 sample_result = FetchRaw_times (Suc (Suc (Suc (Suc 0)))) sample_result"
    by (simp add: numeral_eq_Suc)
  then have "fst (FetchRaw_times 4 sample_result) =
     [Inr (Some \<lparr>chunk_types = [BOOLEAN, VARCHAR, BIGINT],
                 chunk_rows = [[sample_true, sample_abc, sample_minus_one],
                               [sample_true, sample_null, sample_minus_one]]\<rparr>),
      Inr (Some \<lparr>chunk_types = [BOOLEAN, VARCHAR, BIGINT],
                 chunk_rows = [[sample_true, sample_abc, sample_minus_one]]\<rparr>),
      Inr None, Inr None]"
    by (simp add: sample_defs FetchRaw_def HasError_def InitializeScanChunk_def
        InitializeScan_def Scan_def DataChunk_size_def Types_def)
  with h FetchRaw_full_pass [OF h] show ?thesis
    by simp
qed

subsection \<open>Random access by the cached row view\<close>

lemma length_le_concat: "[] \<notin> set xss \<Longrightarrow> length xss \<le> length (concat xss)"
proof (induction xss)
  case Nil
  show ?case by simp
next
  case (Cons xs xss)
  then have "xs \<noteq> []" and le: "length xss \<le> length (concat xss)"
    by auto
  then have "Suc 0 \<le> length xs"
    by (cases xs) simp_all
  with le show ?case by simp
qed

lemma full_scan_rows:
  assumes "chunks_nonempty coll"
  shows "delivered_rows
           (fst (FetchRaw_times (Suc (Count coll)) (MaterializedQueryResult_collection ns coll)))
         = Rows coll"
proof -
  let ?m = "length (chunk_data coll)"
  let ?fresh = "MaterializedQueryResult_collection ns coll"
  have "?m \<le> Count coll"
    using assms length_le_concat [of "chunk_data coll"]
    by (simp add: chunks_nonempty_def Count_def Rows_def)
  then have fuel: "Suc (Count coll) = ?m + Suc (Count coll - ?m)"
    by simp
  have fresh: "success ?fresh" "collection ?fresh = Some coll" "\<not> scan_initialized ?fresh"
    by (simp_all add: MaterializedQueryResult_collection_def)
  have "fst (FetchRaw_times (?m + Suc (Count coll - ?m)) ?fresh) =
      map (\<lambda>b. Inr (Some b))
        (map (\<lambda>rows. \<lparr>chunk_types = Types coll, chunk_rows = rows\<rparr>) (chunk_data coll))
      @ replicate (Suc (Count coll - ?m)) (Inr None)"
    using FetchRaw_times_full_pass [OF fresh assms] by (simp add: comp_def)
  then have "delivered_rows (fst (FetchRaw_times (Suc (Count coll)) ?fresh)) =
      concat (map chunk_rows
        (map (\<lambda>rows. \<lparr>chunk_types = Types coll, chunk_rows = rows\<rparr>) (chunk_data coll)))"
    using fuel delivered_rows_batches by metis
  then show ?thesis
    by (simp add: comp_def Rows_def)
qed

lemma GetValue_cached:
  "row_collection s = Some rows \<Longrightarrow>
     GetValue column index s = (RowCollection_GetValue rows column index, s)"
  by (simp add: GetValue_def)

lemma GetValue_first:
  "row_collection s = None \<Longrightarrow> collection s = Some coll \<Longrightarrow>
     GetValue column index s =
       (RowCollection_GetValue (GetRows coll) column index,
        s\<lparr>row_collection := Some (GetRows coll)\<rparr>)"
  by (simp add: GetValue_def Let_def)

lemma RowCollection_GetValue_valid:
  assumes "rows_aligned coll" and "index < Count coll" and "column < ColumnCount coll"
  shows "RowCollection_GetValue (GetRows coll) column index = Inr (Rows coll ! index ! column)"
proof -
  from assms(2) have "Rows coll ! index \<in> set (Rows coll)"
    by (simp add: Count_def)
  with assms(1,3) have "column < length (Rows coll ! index)"
    by (simp add: rows_aligned_def)
  with assms(2) show ?thesis
    by (simp add: RowCollection_GetValue_def Row_GetValue_def GetRows_def Rows_def Count_def)
qed

text \<open>
  C6: on a successful result holding the store \<open>R\<close>, for every row index below the row
  count and every column below the column count, \<^verbatim>\<open>GetValue(column, index)\<close> returns the
  cell at that position among the rows that a complete pass of \<^verbatim>\<open>FetchRaw()\<close> over \<open>R\<close>
  delivers; a second call with the same arguments returns the same value; the call leaves
  the row view of \<open>R\<close> cached, changes nothing when the view was cached already, and no
  later call changes the object. The view is built once and reused: every later call
  answers from the view cached by the first one and never from the store, whatever store
  the object holds by then (the same, another one, or none), and in general an object with
  a cached view answers from that view and leaves it in place.
\<close>

theorem GetValue_matches_full_scan:
  assumes "success s" and "collection s = Some coll"
    and "row_collection s = None \<or> row_collection s = Some (GetRows coll)"
    and "chunks_nonempty coll" and "rows_aligned coll"
    and "index < Count coll" and "column < ColumnCount coll"
  shows "fst (GetValue column index s) =
           Inr (delivered_rows (fst (FetchRaw_times (Suc (Count coll))
                  (MaterializedQueryResult_collection ns coll))) ! index ! column) \<and>
         fst (GetValue column index s) = Inr (Rows coll ! index ! column) \<and>
         fst (GetValue column index (snd (GetValue column index s)))
           = fst (GetValue column index s) \<and>
         snd (GetValue column index s) = s\<lparr>row_collection := Some (GetRows coll)\<rparr> \<and>
         (row_collection s = Some (GetRows coll) \<longrightarrow> snd (GetValue column index s) = s) \<and>
         snd (GetValue column' index' (snd (GetValue column index s)))
           = snd (GetValue column index s) \<and>
         GetValue column' index' ((snd (GetValue column index s))\<lparr>collection := store'\<rparr>)
           = (RowCollection_GetValue (GetRows coll) column' index',
              (snd (GetValue column index s))\<lparr>collection := store'\<rparr>) \<and>
         GetValue column' index' (s\<lparr>collection := store', row_collection := Some view\<rparr>)
           = (RowCollection_GetValue view column' index',
              s\<lparr>collection := store', row_collection := Some view\<rparr>)"
proof -
  let ?s1 = "s\<lparr>row_collection := Some (GetRows coll)\<rparr>"
  have cached: "row_collection s = Some (GetRows coll) \<Longrightarrow> ?s1 = s"
    by (cases s) simp
  have call: "GetValue c i s = (RowCollection_GetValue (GetRows coll) c i, ?s1)" for c i
    using assms(3)
  proof
    assume "row_collection s = None"
    then show ?thesis by (simp add: GetValue_first [OF _ assms(2)])
  next
    assume "row_collection s = Some (GetRows coll)"
    then show ?thesis by (simp add: GetValue_cached cached)
  qed
  have again: "GetValue c i ?s1 = (RowCollection_GetValue (GetRows coll) c i, ?s1)" for c i
    by (simp add: GetValue_cached)
  have cell: "RowCollection_GetValue (GetRows coll) column index = Inr (Rows coll ! index ! column)"
    by (rule RowCollection_GetValue_valid [OF assms(5-7)])
  have reuse: "GetValue column' index' (?s1\<lparr>collection := store'\<rparr>)
      = (RowCollection_GetValue (GetRows coll) column' index', ?s1\<lparr>collection := store'\<rparr>)"
    by (simp add: GetValue_cached)
  have pinned: "GetValue column' index' (s\<lparr>collection := store', row_collection := Some view\<rparr>)
      = (RowCollection_GetValue view column' index',
         s\<lparr>collection := store', row_collection := Some view\<rparr>)"
    by (simp add: GetValue_cached)
  have first: "fst (GetValue column index s) =
           Inr (delivered_rows (fst (FetchRaw_times (Suc (Count coll))
                  (MaterializedQueryResult_collection ns coll))) ! index ! column) \<and>
         fst (GetValue column index s) = Inr (Rows coll ! index ! column) \<and>
         fst (GetValue column index (snd (GetValue column index s)))
           = fst (GetValue column index s) \<and>
         snd (GetValue column index s) = s\<lparr>row_collection := Some (GetRows coll)\<rparr> \<and>
         (row_collection s = Some (GetRows coll) \<longrightarrow> snd (GetValue column index s) = s) \<and>
         snd (GetValue column' index' (snd (GetValue column index s)))
           = snd (GetValue column index s)"
    using cached
    by (simp add: call again cell full_scan_rows [OF assms(4)] del: FetchRaw_times.simps)
  have state: "snd (GetValue column index s) = ?s1"
    by (simp add: call)
  show ?thesis
    using first reuse pinned unfolding state by blast
qed

theorem GetValue_matches_full_scan_witness:
  "success sample_result \<and> collection sample_result = Some sample_collection \<and>
   row_collection sample_result = None \<and>
   chunks_nonempty sample_collection \<and> rows_aligned sample_collection \<and>
   1 < Count sample_collection \<and> 1 < ColumnCount sample_collection \<and>
   fst (GetValue 1 1 sample_result) = Inr sample_null \<and>
   delivered_rows (fst (FetchRaw_times (Suc (Count sample_collection))
       (MaterializedQueryResult_collection [] sample_collection))) ! 1 ! 1 = sample_null \<and>
   fst (GetValue 1 1 (snd (GetValue 1 1 sample_result))) = Inr sample_null \<and>
   snd (GetValue 1 1 sample_result)
     = sample_result\<lparr>row_collection := Some (GetRows sample_collection)\<rparr> \<and>
   snd (GetValue 0 2 (snd (GetValue 1 1 sample_result))) = snd (GetValue 1 1 sample_result) \<and>
   GetValue 0 2 ((snd (GetValue 1 1 sample_result))\<lparr>collection := None\<rparr>)
     = (Inr sample_true, (snd (GetValue 1 1 sample_result))\<lparr>collection := None\<rparr>) \<and>
   GetValue 0 2 (sample_result\<lparr>collection := None, row_collection := Some [[sample_abc]]\<rparr>)
     = (Inl IndexOutOfRange,
        sample_result\<lparr>collection := None, row_collection := Some [[sample_abc]]\<rparr>)"
proof -
  have h: "success sample_result" "collection sample_result = Some sample_collection"
    "row_collection sample_result = None \<or>
       row_collection sample_result = Some (GetRows sample_collection)"
    "chunks_nonempty sample_collection" "rows_aligned sample_collection"
    "1 < Count sample_collection" "1 < ColumnCount sample_collection"
    by (simp_all add: sample_defs chunks_nonempty_def rows_aligned_def Rows_def Count_def
        ColumnCount_def)
  have cell: "Rows sample_collection ! 1 ! 1 = sample_null"
    by (simp add: sample_collection_def Rows_def)
  have none: "row_collection sample_result = None"
    by (simp add: sample_defs)
  have view: "RowCollection_GetValue (GetRows sample_collection) 0 2 = Inr sample_true"
    "RowCollection_GetValue [[sample_abc]] 0 2 = Inl IndexOutOfRange"
    by (simp_all add: sample_collection_def GetRows_def RowCollection_GetValue_def
        Row_GetValue_def)
  show ?thesis
    using h none cell view
      GetValue_matches_full_scan [OF h, where ns = "[]" and column' = 0 and index' = 2
        and store' = None and view = "[[sample_abc]]"]
    by (auto simp del: FetchRaw_times.simps)
qed

subsection \<open>After the store was taken\<close>

text \<open>
  C2, as amended: after a successful \<^verbatim>\<open>TakeCollection()\<close>, \<^verbatim>\<open>Collection()\<close> and
  \<^verbatim>\<open>TakeCollection()\<close> fail with the internal error of the missing store, \<^verbatim>\<open>FetchRaw()\<close>,
  \<^verbatim>\<open>Fetch()\<close> and \<^verbatim>\<open>getContents()\<close> fail, and \<^verbatim>\<open>GetValue(column, index)\<close> fails provided
  no row view had been built before the store was taken.
\<close>

theorem after_TakeCollection:
  assumes "TakeCollection s = (Inr coll, s')"
  shows "Collection s' = Inl (InternalException ''Missing collection from materialized query result'') \<and>
         fst (TakeCollection s') = Inl (InternalException ''Missing collection from materialized query result'') \<and>
         fst (FetchRaw s') = Inl NullPointerDereference \<and>
         fst (Fetch s') = Inl NullPointerDereference \<and>
         getContents s' = Inl (InternalException ''Missing collection from materialized query result'') \<and>
         (row_collection s = None \<longrightarrow> fst (GetValue column index s') = Inl NullPointerDereference)"
proof -
  from assms have ok: "success s'" and gone: "collection s' = None"
    and view: "row_collection s' = row_collection s"
    by (auto simp add: TakeCollection_def HasError_def split: if_splits option.splits)
  show ?thesis
    using ok gone view
    by (simp add: Collection_def TakeCollection_def FetchRaw_def Fetch_def getContents_def
        GetValue_def HasError_def)
qed

theorem after_TakeCollection_witness:
  "TakeCollection sample_result = (Inr sample_collection, sample_result\<lparr>collection := None\<rparr>) \<and>
   row_collection sample_result = None \<and>
   Collection (sample_result\<lparr>collection := None\<rparr>)
     = Inl (InternalException ''Missing collection from materialized query result'') \<and>
   fst (TakeCollection (sample_result\<lparr>collection := None\<rparr>))
     = Inl (InternalException ''Missing collection from materialized query result'') \<and>
   fst (FetchRaw (sample_result\<lparr>collection := None\<rparr>)) = Inl NullPointerDereference \<and>
   fst (Fetch (sample_result\<lparr>collection := None\<rparr>)) = Inl NullPointerDereference \<and>
   getContents (sample_result\<lparr>collection := None\<rparr>)
     = Inl (InternalException ''Missing collection from materialized query result'') \<and>
   fst (GetValue 0 0 (sample_result\<lparr>collection := None\<rparr>)) = Inl NullPointerDereference"
proof -
  have h: "TakeCollection sample_result
             = (Inr sample_collection, sample_result\<lparr>collection := None\<rparr>)"
    by (simp add: sample_defs TakeCollection_def HasError_def)
  have none: "row_collection sample_result = None"
    by (simp add: sample_defs)
  show ?thesis
    using h none after_TakeCollection [OF h, of 0 0] by simp
qed

text \<open>
  C2, as stated, fails: on the sample result, one \<^verbatim>\<open>GetValue\<close> call before the store is
  taken leaves the row view cached, \<^verbatim>\<open>TakeCollection()\<close> succeeds, and \<^verbatim>\<open>GetValue\<close> then
  still returns the cell from the cached view.
\<close>

theorem GetValue_after_TakeCollection_counterexample:
  "success sample_result \<and>
   fst (TakeCollection (snd (GetValue 0 0 sample_result))) = Inr sample_collection \<and>
   fst (GetValue 0 0 (snd (TakeCollection (snd (GetValue 0 0 sample_result)))))
     = Inr sample_true"
  by (simp add: sample_defs GetValue_def TakeCollection_def HasError_def GetRows_def
      RowCollection_GetValue_def Row_GetValue_def)

end
